theory Spec2Isabelle
  imports Main
begin

section \<open>The environment of scripts/update.py\<close>

text \<open>
  The script reads one fact of the filesystem (whether \<^verbatim>\<open>tools/.git\<close> can be
  stat'ed), writes lines to standard output and starts at most one child process.
  The model makes each of these explicit.

  A filesystem is seen through \<^verbatim>\<open>os.stat\<close>: a path is mapped to the kind of
  object the call resolves to (symbolic links followed), and to \<open>None\<close> where the call
  raises \<^verbatim>\<open>OSError\<close> (nothing there, a dangling link, a parent that cannot be
  searched).
\<close>

datatype file_kind = RegularFile | Directory | OtherKind

type_synonym path = string

type_synonym filesystem = "path \<rightharpoonup> file_kind"

text \<open>
  The child process of \<^verbatim>\<open>subprocess.run(cmd, shell=True)\<close>: the shell is given the
  command string and nothing else of the script (in particular not its arguments); it
  may change the filesystem, and it ends with a return code. The return code is a
  Python \<open>int\<close>: negative when the child was ended by a signal.

  Starting the shell and writing to standard output are taken to succeed: a missing
  \<^verbatim>\<open>/bin/sh\<close> or a closed standard output is outside the model.
\<close>

type_synonym shell = "string \<Rightarrow> filesystem \<Rightarrow> int \<times> filesystem"

text \<open>
  What an observer of the process sees, in the order in which it happens: \<open>Print s\<close> is
  the line \<open>s\<close> written to standard output (handed to the operating system, not only
  to the interpreter's buffer), \<open>Spawn c\<close> is the child process of the command \<open>c\<close>,
  from its start to its end.
\<close>

datatype event = Print string | Spawn string

text \<open>
  The interpreter's \<^verbatim>\<open>sys.stdout\<close> is line-buffered when standard output is a
  terminal and block-buffered when it is a pipe or a file. The script never calls
  \<^verbatim>\<open>flush\<close> and does not change the mode.
\<close>

datatype buffering = LineBuffered | BlockBuffered

text \<open>The exceptions of the Python library that the script's calls can raise.\<close>

datatype py_error = OSError path | CalledProcessError int string

text \<open>
  The state of the running interpreter: \<open>argv\<close> is \<^verbatim>\<open>sys.argv[1:]\<close>, which the
  interpreter holds whether the script reads it or not; \<open>pending\<close> are the lines that
  \<^verbatim>\<open>print\<close> has put into the buffer of \<^verbatim>\<open>sys.stdout\<close> and that are not written yet.
\<close>

record proc =
  argv :: "string list"
  fs :: filesystem
  stdout_mode :: buffering
  pending :: "string list"
  trace :: "event list"

section \<open>The Python library calls the script makes\<close>

definition os_stat :: "filesystem \<Rightarrow> path \<Rightarrow> py_error + file_kind" where
  "os_stat f p = (case f p of None \<Rightarrow> Inl (OSError p) | Some k \<Rightarrow> Inr k)"

text \<open>
  \<^verbatim>\<open>os.path.exists(path)\<close> is \<^verbatim>\<open>os.stat(path)\<close> with the \<^verbatim>\<open>OSError\<close> caught: it
  answers \<open>True\<close> for whatever kind of object is there.
\<close>

definition os_path_exists :: "filesystem \<Rightarrow> path \<Rightarrow> bool" where
  "os_path_exists f p = (case os_stat f p of Inl _ \<Rightarrow> False | Inr _ \<Rightarrow> True)"

text \<open>The size of the buffer of \<^verbatim>\<open>sys.stdout\<close> in bytes (\<^verbatim>\<open>io.DEFAULT_BUFFER_SIZE\<close>).\<close>

definition buffer_size :: nat where
  "buffer_size = 8192"

text \<open>The bytes that buffered lines take: each line and its newline.\<close>

definition pending_bytes :: "string list \<Rightarrow> nat" where
  "pending_bytes ls = sum_list (map (\<lambda>l. length l + 1) ls)"

text \<open>Flushing \<^verbatim>\<open>sys.stdout\<close> writes the buffered lines, in their order.\<close>

definition stdout_flush :: "proc \<Rightarrow> proc" where
  "stdout_flush st = st\<lparr>pending := [], trace := trace st @ map Print (pending st)\<rparr>"

text \<open>
  \<^verbatim>\<open>print(s)\<close> puts the line \<open>s\<close> into the buffer of \<^verbatim>\<open>sys.stdout\<close>. A
  line-buffered stream is flushed at once, since the text ends with a newline; a
  block-buffered stream is flushed only when the buffer is full.
\<close>

definition print :: "string \<Rightarrow> proc \<Rightarrow> proc" where
  "print s st =
     (case stdout_mode st of
        LineBuffered \<Rightarrow> stdout_flush (st\<lparr>pending := pending st @ [s]\<rparr>)
      | BlockBuffered \<Rightarrow>
          (if pending_bytes (pending st @ [s]) < buffer_size
           then st\<lparr>pending := pending st @ [s]\<rparr>
           else stdout_flush (st\<lparr>pending := pending st @ [s]\<rparr>)))"

text \<open>
  \<^verbatim>\<open>subprocess.run(cmd, shell=True, check=check)\<close> starts the shell on \<open>cmd\<close>, waits
  for it, and returns its return code; with \<open>check\<close> set, a return code other than 0
  raises \<^verbatim>\<open>CalledProcessError\<close> instead. It does not flush \<^verbatim>\<open>sys.stdout\<close>: what
  is buffered stays buffered while the child runs.
\<close>

definition subprocess_run :: "shell \<Rightarrow> string \<Rightarrow> bool \<Rightarrow> proc \<Rightarrow> (py_error + int) \<times> proc" where
  "subprocess_run sh cmd check st =
     (case sh cmd (fs st) of (rc, f') \<Rightarrow>
        (if check \<and> rc \<noteq> 0 then Inl (CalledProcessError rc cmd) else Inr rc,
         st\<lparr>fs := f', trace := trace st @ [Spawn cmd]\<rparr>))"

section \<open>The script\<close>

text \<open>
  \<^verbatim>\<open>
  def run(cmd):
      print(f"Running: {cmd}")
      subprocess.run(cmd, shell=True, check=True)
  \<close>
\<close>

definition run :: "shell \<Rightarrow> string \<Rightarrow> proc \<Rightarrow> (py_error + unit) \<times> proc" where
  "run sh cmd st =
     (case subprocess_run sh cmd True (print (''Running: '' @ cmd) st) of
        (Inl e, st') \<Rightarrow> (Inl e, st')
      | (Inr _, st') \<Rightarrow> (Inr (), st'))"

text \<open>
  \<^verbatim>\<open>
  if __name__ == "__main__":
      if os.path.exists("tools/.git"):
          run("git submodule update --remote --merge")
      else:
          print("No tools submodule found.")
  \<close>
\<close>

definition main :: "shell \<Rightarrow> proc \<Rightarrow> (py_error + unit) \<times> proc" where
  "main sh st =
     (if os_path_exists (fs st) ''tools/.git''
      then run sh ''git submodule update --remote --merge'' st
      else (Inr (), print ''No tools submodule found.'' st))"

section \<open>The interpreter around the script\<close>

text \<open>
  What one invocation leaves behind for an observer: the events in order, the exit
  status of the interpreter, and the exception that ended it, if one did (the
  interpreter reports it on standard error).
\<close>

record outcome =
  events :: "event list"
  exit_status :: int
  uncaught :: "py_error option"

text \<open>
  The interpreter is started with standard output in the mode \<open>mode\<close> and an empty
  buffer. It exits with status 0 when the module body runs to its end and with
  status 1 when an exception leaves it uncaught; in both cases it flushes
  \<^verbatim>\<open>sys.stdout\<close> on its way out.
\<close>

definition python :: "buffering \<Rightarrow> string list \<Rightarrow> shell \<Rightarrow> filesystem \<Rightarrow> outcome \<times> filesystem" where
  "python mode args sh f =
     (case main sh \<lparr>argv = args, fs = f, stdout_mode = mode, pending = [], trace = []\<rparr> of
        (Inl e, st) \<Rightarrow>
          (\<lparr>events = trace (stdout_flush st), exit_status = 1, uncaught = Some e\<rparr>, fs st)
      | (Inr _, st) \<Rightarrow>
          (\<lparr>events = trace (stdout_flush st), exit_status = 0, uncaught = None\<rparr>, fs st))"

text \<open>The lines printed and the commands started, read off the events.\<close>

fun printed :: "event list \<Rightarrow> string list" where
  "printed [] = []"
| "printed (Print s # es) = s # printed es"
| "printed (Spawn c # es) = printed es"

fun spawned :: "event list \<Rightarrow> string list" where
  "spawned [] = []"
| "spawned (Print s # es) = spawned es"
| "spawned (Spawn c # es) = c # spawned es"

text \<open>
  Consecutive invocations, one per argument list, each starting in the filesystem the
  one before it left.
\<close>

fun rerun :: "buffering \<Rightarrow> string list list \<Rightarrow> shell \<Rightarrow> filesystem \<Rightarrow> outcome list \<times> filesystem" where
  "rerun mode [] sh f = ([], f)"
| "rerun mode (args # rest) sh f =
     (case python mode args sh f of (out, f') \<Rightarrow>
        (case rerun mode rest sh f' of (outs, f'') \<Rightarrow> (out # outs, f'')))"

section \<open>Concrete environments\<close>

text \<open>A command that ends with return code \<open>rc\<close> and touches nothing.\<close>

definition sh_exit :: "int \<Rightarrow> shell" where
  "sh_exit rc cmd f = (rc, f)"

text \<open>A command that ends with return code \<open>rc\<close> after writing a file.\<close>

definition sh_write :: "int \<Rightarrow> shell" where
  "sh_write rc cmd f = (rc, f(''tools/README.md'' \<mapsto> RegularFile))"

text \<open>A checked-out submodule whose \<^verbatim>\<open>.git\<close> is a directory.\<close>

definition fs_gitdir :: filesystem where
  "fs_gitdir = [''tools'' \<mapsto> Directory, ''tools/.git'' \<mapsto> Directory]"

text \<open>A checked-out submodule whose \<^verbatim>\<open>.git\<close> is a regular file (a gitlink).\<close>

definition fs_gitfile :: filesystem where
  "fs_gitfile = [''tools'' \<mapsto> Directory, ''tools/.git'' \<mapsto> RegularFile]"

text \<open>A directory \<^verbatim>\<open>tools\<close> with nothing in it.\<close>

definition fs_tools_only :: filesystem where
  "fs_tools_only = [''tools'' \<mapsto> Directory]"

section \<open>The two branches\<close>

lemma os_path_exists_iff: "os_path_exists f p = (f p \<noteq> None)"
  by (cases "f p") (simp_all add: os_path_exists_def os_stat_def)

text \<open>Neither line of the script fills the buffer of a block-buffered stream.\<close>

lemma notice_fits: "pending_bytes [''No tools submodule found.''] < buffer_size"
  by (simp add: pending_bytes_def buffer_size_def)

lemma running_fits: "pending_bytes [''Running: '' @ ''git submodule update --remote --merge''] < buffer_size"
  by (simp add: pending_bytes_def buffer_size_def)

lemma python_absent:
  assumes "\<not> os_path_exists f ''tools/.git''"
  shows "python m args sh f =
    (\<lparr>events = [Print ''No tools submodule found.''], exit_status = 0, uncaught = None\<rparr>, f)"
proof (cases m)
  case LineBuffered
  with assms show ?thesis
    by (simp add: python_def main_def print_def stdout_flush_def)
next
  case BlockBuffered
  with assms notice_fits show ?thesis
    by (simp add: python_def main_def print_def stdout_flush_def)
qed

lemma python_present:
  assumes "os_path_exists f ''tools/.git''"
  shows "python m args sh f =
    (\<lparr>events = (case m of
                   LineBuffered \<Rightarrow> [Print ''Running: git submodule update --remote --merge'', Spawn ''git submodule update --remote --merge'']
                 | BlockBuffered \<Rightarrow> [Spawn ''git submodule update --remote --merge'', Print ''Running: git submodule update --remote --merge'']),
      exit_status = (if fst (sh ''git submodule update --remote --merge'' f) = 0 then 0 else 1),
      uncaught = (if fst (sh ''git submodule update --remote --merge'' f) = 0 then None
                  else Some (CalledProcessError (fst (sh ''git submodule update --remote --merge'' f)) ''git submodule update --remote --merge''))\<rparr>,
     snd (sh ''git submodule update --remote --merge'' f))"
proof (cases "sh ''git submodule update --remote --merge'' f")
  case (Pair rc f')
  show ?thesis
  proof (cases m)
    case LineBuffered
    with assms Pair show ?thesis
      by (simp add: python_def main_def run_def subprocess_run_def print_def stdout_flush_def)
  next
    case BlockBuffered
    with assms Pair running_fits show ?thesis
      by (simp add: python_def main_def run_def subprocess_run_def print_def stdout_flush_def)
  qed
qed

lemma exists_gitdir: "os_path_exists fs_gitdir ''tools/.git''"
  by (simp add: os_path_exists_iff fs_gitdir_def)

lemma exists_gitfile: "os_path_exists fs_gitfile ''tools/.git''"
  by (simp add: os_path_exists_iff fs_gitfile_def)

lemma absent_tools_only: "\<not> os_path_exists fs_tools_only ''tools/.git''"
  by (simp add: os_path_exists_iff fs_tools_only_def)

lemma absent_empty: "\<not> os_path_exists Map.empty ''tools/.git''"
  by (simp add: os_path_exists_iff)

section \<open>The marker is absent\<close>

text \<open>
  C3: when \<^verbatim>\<open>tools/.git\<close> does not exist, the script prints exactly the line
  \<^verbatim>\<open>No tools submodule found.\<close>, starts no process and ends with exit status 0.
\<close>

theorem absent_prints_notice_and_succeeds:
  assumes "\<not> os_path_exists f ''tools/.git''"
  shows "printed (events (fst (python m args sh f))) = [''No tools submodule found.'']
       \<and> spawned (events (fst (python m args sh f))) = []
       \<and> exit_status (fst (python m args sh f)) = 0
       \<and> uncaught (fst (python m args sh f)) = None"
  using assms by (simp add: python_absent)

theorem absent_prints_notice_and_succeeds_witness:
  "\<not> os_path_exists Map.empty ''tools/.git''
   \<and> printed (events (fst (python BlockBuffered [] (sh_exit 1) Map.empty))) = [''No tools submodule found.'']
   \<and> spawned (events (fst (python BlockBuffered [] (sh_exit 1) Map.empty))) = []
   \<and> exit_status (fst (python BlockBuffered [] (sh_exit 1) Map.empty)) = 0
   \<and> uncaught (fst (python BlockBuffered [] (sh_exit 1) Map.empty)) = None"
  using absent_prints_notice_and_succeeds
    [where f = Map.empty and m = BlockBuffered and args = "[]" and sh = "sh_exit 1"] absent_empty
  by blast

text \<open>
  C5: a directory \<^verbatim>\<open>tools\<close> without an entry \<^verbatim>\<open>tools/.git\<close> is the absent case:
  the notice is printed, no process is started, the exit status is 0, and the outcome
  is the one of a working directory with no \<^verbatim>\<open>tools\<close> at all.
\<close>

theorem tools_without_git_is_absent:
  assumes "f ''tools'' = Some Directory" and "f ''tools/.git'' = None"
  shows "fst (python m args sh f) = fst (python m args sh Map.empty)
       \<and> printed (events (fst (python m args sh f))) = [''No tools submodule found.'']
       \<and> spawned (events (fst (python m args sh f))) = []
       \<and> exit_status (fst (python m args sh f)) = 0"
proof -
  from assms(2) have "\<not> os_path_exists f ''tools/.git''"
    by (simp add: os_path_exists_iff)
  then show ?thesis
    by (simp add: python_absent absent_empty)
qed

theorem tools_without_git_is_absent_witness:
  "fs_tools_only ''tools'' = Some Directory \<and> fs_tools_only ''tools/.git'' = None
   \<and> fst (python LineBuffered [] (sh_exit 1) fs_tools_only)
     = fst (python LineBuffered [] (sh_exit 1) Map.empty)
   \<and> printed (events (fst (python LineBuffered [] (sh_exit 1) fs_tools_only))) = [''No tools submodule found.'']
   \<and> spawned (events (fst (python LineBuffered [] (sh_exit 1) fs_tools_only))) = []
   \<and> exit_status (fst (python LineBuffered [] (sh_exit 1) fs_tools_only)) = 0"
proof -
  have d: "fs_tools_only ''tools'' = Some Directory"
    by (simp add: fs_tools_only_def)
  have n: "fs_tools_only ''tools/.git'' = None"
    by (simp add: fs_tools_only_def)
  from tools_without_git_is_absent
    [where f = fs_tools_only and m = LineBuffered and args = "[]" and sh = "sh_exit 1"] d n
  show ?thesis by blast
qed

text \<open>
  C7: while \<^verbatim>\<open>tools/.git\<close> is absent, every one of any number of consecutive
  invocations has the same outcome (the notice, exit status 0), whatever the
  invocations before it were, and the filesystem is left as it was.
\<close>

theorem absent_rerun_same_outcome:
  assumes "\<not> os_path_exists f ''tools/.git''"
  shows "rerun m argss sh f =
    (replicate (length argss)
       \<lparr>events = [Print ''No tools submodule found.''], exit_status = 0, uncaught = None\<rparr>, f)"
  using assms
proof (induction argss)
  case Nil
  show ?case by simp
next
  case (Cons args rest)
  from Cons.prems have "python m args sh f =
      (\<lparr>events = [Print ''No tools submodule found.''], exit_status = 0, uncaught = None\<rparr>, f)"
    by (rule python_absent)
  moreover from Cons have "rerun m rest sh f =
      (replicate (length rest)
         \<lparr>events = [Print ''No tools submodule found.''], exit_status = 0, uncaught = None\<rparr>, f)"
    by simp
  ultimately show ?case by simp
qed

theorem absent_rerun_same_outcome_witness:
  "\<not> os_path_exists fs_tools_only ''tools/.git''
   \<and> rerun BlockBuffered [[], [''--force''], []] (sh_write 3) fs_tools_only =
     ([\<lparr>events = [Print ''No tools submodule found.''], exit_status = 0, uncaught = None\<rparr>,
       \<lparr>events = [Print ''No tools submodule found.''], exit_status = 0, uncaught = None\<rparr>,
       \<lparr>events = [Print ''No tools submodule found.''], exit_status = 0, uncaught = None\<rparr>], fs_tools_only)"
  using absent_rerun_same_outcome
    [where f = fs_tools_only and m = BlockBuffered and argss = "[[], [''--force''], []]"
       and sh = "sh_write 3"]
    absent_tools_only
  by (simp add: numeral_3_eq_3)

section \<open>The marker is present\<close>




text \<open>
  C9: when the command ends with a return code other than 0, the script ends with
  exit status 1, whichever return code it was.
\<close>

theorem failure_exits_with_one:
  assumes "os_path_exists f ''tools/.git''"
    and "fst (sh ''git submodule update --remote --merge'' f) \<noteq> 0"
  shows "exit_status (fst (python m args sh f)) = 1"
  using assms by (simp add: python_present)

theorem failure_exits_with_one_witness:
  "os_path_exists fs_gitdir ''tools/.git''
   \<and> fst (sh_exit 128 ''git submodule update --remote --merge'' fs_gitdir) \<noteq> 0
   \<and> exit_status (fst (python LineBuffered [] (sh_exit 128) fs_gitdir)) = 1"
proof -
  have rc: "fst (sh_exit 128 ''git submodule update --remote --merge'' fs_gitdir) \<noteq> 0"
    by (simp add: sh_exit_def)
  from failure_exits_with_one
    [where f = fs_gitdir and sh = "sh_exit 128" and m = LineBuffered and args = "[]"]
    exists_gitdir rc
  show ?thesis by blast
qed

text \<open>
  C4: a command that ends with a return code other than 0 makes the script end with
  a status other than 0, after one start of the command and with the
  \<^verbatim>\<open>CalledProcessError\<close> uncaught; the script ends with status 0 when the command
  ends with 0 and when the marker is absent.
\<close>

theorem failure_is_propagated:
  "(os_path_exists f ''tools/.git'' \<and> fst (sh ''git submodule update --remote --merge'' f) \<noteq> 0 \<longrightarrow>
      exit_status (fst (python m args sh f)) \<noteq> 0
      \<and> spawned (events (fst (python m args sh f))) = [''git submodule update --remote --merge'']
      \<and> uncaught (fst (python m args sh f)) = Some (CalledProcessError (fst (sh ''git submodule update --remote --merge'' f)) ''git submodule update --remote --merge''))
   \<and> (os_path_exists f ''tools/.git'' \<and> fst (sh ''git submodule update --remote --merge'' f) = 0 \<longrightarrow>
      exit_status (fst (python m args sh f)) = 0
      \<and> spawned (events (fst (python m args sh f))) = [''git submodule update --remote --merge'']
      \<and> uncaught (fst (python m args sh f)) = None)
   \<and> (\<not> os_path_exists f ''tools/.git'' \<longrightarrow>
      exit_status (fst (python m args sh f)) = 0)"
proof (cases "os_path_exists f ''tools/.git''")
  case True
  then show ?thesis by (simp add: python_present split: buffering.split)
next
  case False
  then show ?thesis by (simp add: python_absent)
qed

theorem failure_is_propagated_witness:
  "(os_path_exists fs_gitdir ''tools/.git'' \<and> fst (sh_exit 2 ''git submodule update --remote --merge'' fs_gitdir) \<noteq> 0)
   \<and> exit_status (fst (python LineBuffered [] (sh_exit 2) fs_gitdir)) \<noteq> 0
   \<and> spawned (events (fst (python LineBuffered [] (sh_exit 2) fs_gitdir))) = [''git submodule update --remote --merge'']
   \<and> uncaught (fst (python LineBuffered [] (sh_exit 2) fs_gitdir))
     = Some (CalledProcessError 2 ''git submodule update --remote --merge'')
   \<and> (os_path_exists fs_gitdir ''tools/.git'' \<and> fst (sh_exit 0 ''git submodule update --remote --merge'' fs_gitdir) = 0)
   \<and> exit_status (fst (python LineBuffered [] (sh_exit 0) fs_gitdir)) = 0
   \<and> \<not> os_path_exists fs_tools_only ''tools/.git''
   \<and> exit_status (fst (python LineBuffered [] (sh_exit 2) fs_tools_only)) = 0"
proof -
  have rc2: "fst (sh_exit 2 ''git submodule update --remote --merge'' fs_gitdir) = 2"
    by (simp add: sh_exit_def)
  have rc0: "fst (sh_exit 0 ''git submodule update --remote --merge'' fs_gitdir) = 0"
    by (simp add: sh_exit_def)
  from failure_is_propagated
    [where f = fs_gitdir and sh = "sh_exit 2" and m = LineBuffered and args = "[]"]
    exists_gitdir rc2
  have a: "exit_status (fst (python LineBuffered [] (sh_exit 2) fs_gitdir)) \<noteq> 0
      \<and> spawned (events (fst (python LineBuffered [] (sh_exit 2) fs_gitdir))) = [''git submodule update --remote --merge'']
      \<and> uncaught (fst (python LineBuffered [] (sh_exit 2) fs_gitdir))
        = Some (CalledProcessError 2 ''git submodule update --remote --merge'')"
    by simp
  from failure_is_propagated
    [where f = fs_gitdir and sh = "sh_exit 0" and m = LineBuffered and args = "[]"]
    exists_gitdir rc0
  have b: "exit_status (fst (python LineBuffered [] (sh_exit 0) fs_gitdir)) = 0"
    by simp
  from failure_is_propagated
    [where f = fs_tools_only and sh = "sh_exit 2" and m = LineBuffered and args = "[]"]
    absent_tools_only
  have c: "exit_status (fst (python LineBuffered [] (sh_exit 2) fs_tools_only)) = 0"
    by simp
  from a b c exists_gitdir absent_tools_only rc2 rc0 show ?thesis by simp
qed

text \<open>
  C1, as the code has it: when \<^verbatim>\<open>tools/.git\<close> exists, the script starts exactly the
  command \<^verbatim>\<open>git submodule update --remote --merge\<close> and no other, and its exit status
  is 0 when the command ends with 0 and 1 when the command ends with anything else.
\<close>

theorem present_spawns_update_command:
  assumes "os_path_exists f ''tools/.git''"
  shows "spawned (events (fst (python m args sh f))) = [''git submodule update --remote --merge'']
       \<and> exit_status (fst (python m args sh f)) = (if fst (sh ''git submodule update --remote --merge'' f) = 0 then 0 else 1)"
  using assms by (simp add: python_present split: buffering.split)

theorem present_spawns_update_command_witness:
  "os_path_exists fs_gitdir ''tools/.git''
   \<and> spawned (events (fst (python LineBuffered [] (sh_exit 2) fs_gitdir))) = [''git submodule update --remote --merge'']
   \<and> exit_status (fst (python LineBuffered [] (sh_exit 2) fs_gitdir)) = 1"
  using present_spawns_update_command
    [where f = fs_gitdir and m = LineBuffered and args = "[]" and sh = "sh_exit 2"] exists_gitdir
  by (simp add: sh_exit_def)

text \<open>
  C1 as stated fails: with \<^verbatim>\<open>tools/.git\<close> present and a command that ends with
  return code 2, the script ends with exit status 1, not 2.
\<close>

theorem exit_status_differs_from_command:
  "os_path_exists fs_gitdir ''tools/.git''
   \<and> fst (sh_exit 2 ''git submodule update --remote --merge'' fs_gitdir) = 2
   \<and> exit_status (fst (python LineBuffered [] (sh_exit 2) fs_gitdir)) = 1
   \<and> exit_status (fst (python LineBuffered [] (sh_exit 2) fs_gitdir))
     \<noteq> fst (sh_exit 2 ''git submodule update --remote --merge'' fs_gitdir)"
  by (simp add: python_present exists_gitdir sh_exit_def)

section \<open>Which branch is taken\<close>

text \<open>
  C2, as the code has it: the command is started if and only if some filesystem
  object exists at \<^verbatim>\<open>tools/.git\<close>, of whatever kind, and nothing is started if and
  only if nothing exists there.
\<close>

theorem update_branch_iff_exists:
  "(spawned (events (fst (python m args sh f))) = [''git submodule update --remote --merge'']) = (f ''tools/.git'' \<noteq> None)
   \<and> (spawned (events (fst (python m args sh f))) = []) = (f ''tools/.git'' = None)"
proof (cases "os_path_exists f ''tools/.git''")
  case True
  then show ?thesis by (simp add: python_present os_path_exists_iff split: buffering.split)
next
  case False
  then show ?thesis by (simp add: python_absent os_path_exists_iff)
qed

text \<open>
  C2 as stated fails: a regular file at \<^verbatim>\<open>tools/.git\<close>, which is not a directory,
  makes the script start the command.
\<close>

theorem regular_file_triggers_update:
  "fs_gitfile ''tools/.git'' = Some RegularFile
   \<and> fs_gitfile ''tools/.git'' \<noteq> Some Directory
   \<and> spawned (events (fst (python LineBuffered [] (sh_exit 0) fs_gitfile))) = [''git submodule update --remote --merge'']"
  by (simp add: python_present exists_gitfile) (simp add: fs_gitfile_def)

section \<open>What the outcome depends on\<close>

text \<open>
  C8: two invocations that differ only in their command-line arguments have the same
  outcome (events, exit status, uncaught exception) and leave the same filesystem.
\<close>

theorem arguments_are_ignored:
  "python m args sh f = python m args' sh f"
proof (cases "os_path_exists f ''tools/.git''")
  case True
  then show ?thesis by (simp add: python_present)
next
  case False
  then show ?thesis by (simp add: python_absent)
qed

text \<open>
  C10: two invocations that see the same answer to the existence probe and, where the
  command is started, the same return code of the command, have the same events, the
  same exit status and the same uncaught exception, whatever else differs between
  them (arguments, the rest of the filesystem, what the command does to it). Where
  they differ in the buffering of standard output as well, the lines printed, the
  commands started, the exit status and the uncaught exception are still the same.
\<close>

theorem outcome_determined_by_probe_and_return_code:
  assumes "os_path_exists f1 ''tools/.git'' = os_path_exists f2 ''tools/.git''"
    and "os_path_exists f1 ''tools/.git'' \<longrightarrow> fst (sh1 ''git submodule update --remote --merge'' f1) = fst (sh2 ''git submodule update --remote --merge'' f2)"
  shows "fst (python m args1 sh1 f1) = fst (python m args2 sh2 f2)
       \<and> printed (events (fst (python m1 args1 sh1 f1)))
         = printed (events (fst (python m2 args2 sh2 f2)))
       \<and> spawned (events (fst (python m1 args1 sh1 f1)))
         = spawned (events (fst (python m2 args2 sh2 f2)))
       \<and> exit_status (fst (python m1 args1 sh1 f1)) = exit_status (fst (python m2 args2 sh2 f2))
       \<and> uncaught (fst (python m1 args1 sh1 f1)) = uncaught (fst (python m2 args2 sh2 f2))"
proof (cases "os_path_exists f1 ''tools/.git''")
  case True
  with assms show ?thesis by (simp add: python_present split: buffering.split)
next
  case False
  with assms show ?thesis by (simp add: python_absent)
qed

theorem outcome_determined_by_probe_and_return_code_witness:
  "os_path_exists fs_gitdir ''tools/.git'' = os_path_exists fs_gitfile ''tools/.git''
   \<and> fst (sh_exit 3 ''git submodule update --remote --merge'' fs_gitdir) = fst (sh_write 3 ''git submodule update --remote --merge'' fs_gitfile)
   \<and> fst (python BlockBuffered [] (sh_exit 3) fs_gitdir)
     = fst (python BlockBuffered [''--verbose''] (sh_write 3) fs_gitfile)
   \<and> printed (events (fst (python LineBuffered [] (sh_exit 3) fs_gitdir)))
     = printed (events (fst (python BlockBuffered [''--verbose''] (sh_write 3) fs_gitfile)))
   \<and> exit_status (fst (python LineBuffered [] (sh_exit 3) fs_gitdir))
     = exit_status (fst (python BlockBuffered [''--verbose''] (sh_write 3) fs_gitfile))"
proof -
  have p: "os_path_exists fs_gitdir ''tools/.git'' = os_path_exists fs_gitfile ''tools/.git''"
    by (simp add: exists_gitdir exists_gitfile)
  have rc: "fst (sh_exit 3 ''git submodule update --remote --merge'' fs_gitdir) = fst (sh_write 3 ''git submodule update --remote --merge'' fs_gitfile)"
    by (simp add: sh_exit_def sh_write_def)
  then have rc': "os_path_exists fs_gitdir ''tools/.git'' \<longrightarrow>
      fst (sh_exit 3 ''git submodule update --remote --merge'' fs_gitdir) = fst (sh_write 3 ''git submodule update --remote --merge'' fs_gitfile)"
    by simp
  from outcome_determined_by_probe_and_return_code
    [where ?f1.0 = fs_gitdir and ?f2.0 = fs_gitfile and ?sh1.0 = "sh_exit 3"
       and ?sh2.0 = "sh_write 3" and ?args1.0 = "[]" and ?args2.0 = "[''--verbose'']"
       and m = BlockBuffered and ?m1.0 = LineBuffered and ?m2.0 = BlockBuffered] p rc rc'
  show ?thesis by blast
qed

end
